theory Spec2Isabelle
  imports Complex_Main
begin

section \<open>JavaScript numbers\<close>

text \<open>
  A JavaScript number is modelled as an exact real, one of the two infinities, or NaN.
  Rounding to the nearest double and the sign of zero are not modelled; every
  comparison with NaN is false, as in the language.
\<close>

datatype jsnum = Fin real | PInf | NInf | NaN

fun isFinite :: "jsnum \<Rightarrow> bool" where
  "isFinite (Fin x) = True"
| "isFinite PInf = False"
| "isFinite NInf = False"
| "isFinite NaN = False"

fun jneg :: "jsnum \<Rightarrow> jsnum" where
  "jneg (Fin x) = Fin (- x)"
| "jneg PInf = NInf"
| "jneg NInf = PInf"
| "jneg NaN = NaN"

text \<open>\<^verbatim>\<open>Math.abs\<close>\<close>

fun jabs :: "jsnum \<Rightarrow> jsnum" where
  "jabs (Fin x) = Fin \<bar>x\<bar>"
| "jabs PInf = PInf"
| "jabs NInf = PInf"
| "jabs NaN = NaN"

text \<open>\<^verbatim>\<open>Math.floor\<close>\<close>

fun jfloor :: "jsnum \<Rightarrow> jsnum" where
  "jfloor (Fin x) = Fin (of_int \<lfloor>x\<rfloor>)"
| "jfloor PInf = PInf"
| "jfloor NInf = NInf"
| "jfloor NaN = NaN"

fun jadd :: "jsnum \<Rightarrow> jsnum \<Rightarrow> jsnum" where
  "jadd (Fin x) (Fin y) = Fin (x + y)"
| "jadd NaN b = NaN"
| "jadd a NaN = NaN"
| "jadd PInf NInf = NaN"
| "jadd NInf PInf = NaN"
| "jadd PInf b = PInf"
| "jadd NInf b = NInf"
| "jadd a PInf = PInf"
| "jadd a NInf = NInf"

definition jsub :: "jsnum \<Rightarrow> jsnum \<Rightarrow> jsnum" where
  "jsub a b = jadd a (jneg b)"

text \<open>The sign of a number: 1, -1, or 0 for zero and for NaN.\<close>

fun jsign :: "jsnum \<Rightarrow> int" where
  "jsign (Fin x) = (if 0 < x then 1 else if x < 0 then - 1 else 0)"
| "jsign PInf = 1"
| "jsign NInf = - 1"
| "jsign NaN = 0"

definition signedInf :: "int \<Rightarrow> jsnum" where
  "signedInf s = (if 0 < s then PInf else if s < 0 then NInf else NaN)"

fun jmul :: "jsnum \<Rightarrow> jsnum \<Rightarrow> jsnum" where
  "jmul (Fin x) (Fin y) = Fin (x * y)"
| "jmul NaN b = NaN"
| "jmul a NaN = NaN"
| "jmul a b = signedInf (jsign a * jsign b)"

text \<open>
  Division. A finite number over an infinity is zero; a non-zero number over zero is
  an infinity whose sign is the dividend's (the zero is read as +0); 0/0 and
  \<open>\<infinity>/\<infinity>\<close> are NaN.
\<close>

fun jdiv :: "jsnum \<Rightarrow> jsnum \<Rightarrow> jsnum" where
  "jdiv (Fin x) (Fin y) = (if y = 0 then signedInf (jsign (Fin x)) else Fin (x / y))"
| "jdiv NaN b = NaN"
| "jdiv a NaN = NaN"
| "jdiv (Fin x) b = Fin 0"
| "jdiv a (Fin y) = signedInf (jsign a * (if y < 0 then - 1 else 1))"
| "jdiv a b = NaN"

fun jlt :: "jsnum \<Rightarrow> jsnum \<Rightarrow> bool" where
  "jlt (Fin x) (Fin y) = (x < y)"
| "jlt NaN b = False"
| "jlt a NaN = False"
| "jlt a NInf = False"
| "jlt PInf b = False"
| "jlt a b = True"

fun jle :: "jsnum \<Rightarrow> jsnum \<Rightarrow> bool" where
  "jle (Fin x) (Fin y) = (x \<le> y)"
| "jle NaN b = False"
| "jle a NaN = False"
| "jle NInf b = True"
| "jle a PInf = True"
| "jle a b = False"

definition jgt :: "jsnum \<Rightarrow> jsnum \<Rightarrow> bool" where
  "jgt a b = jlt b a"

definition jge :: "jsnum \<Rightarrow> jsnum \<Rightarrow> bool" where
  "jge a b = jle b a"

section \<open>Parsing numbers from strings\<close>

text \<open>
  \<^verbatim>\<open>parseFloat\<close> skips leading white space and reads the longest prefix that is a
  decimal literal (an optional sign, then \<^verbatim>\<open>Infinity\<close>, or digits with an optional
  fraction and an optional exponent); with no such prefix the result is NaN. The value
  is the exact decimal value. Only the ASCII white space characters are skipped.
\<close>

definition isWhiteSpace :: "char \<Rightarrow> bool" where
  "isWhiteSpace ch = (of_char ch \<in> {9, 10, 11, 12, 13, 32 :: nat})"

definition digitValue :: "char \<Rightarrow> nat option" where
  "digitValue ch =
     (let n = (of_char ch :: nat) in if 48 \<le> n \<and> n \<le> 57 then Some (n - 48) else None)"

text \<open>Reads a run of digits: the value read so far, the number of digits, the rest.\<close>

fun takeDigits :: "string \<Rightarrow> nat \<Rightarrow> nat \<Rightarrow> nat \<times> nat \<times> string" where
  "takeDigits [] v n = (v, n, [])"
| "takeDigits (ch # cs) v n =
     (case digitValue ch of
        Some d \<Rightarrow> takeDigits cs (10 * v + d) (Suc n)
      | None \<Rightarrow> (v, n, ch # cs))"

definition takeSign :: "string \<Rightarrow> bool \<times> string" where
  "takeSign s =
     (case s of
        [] \<Rightarrow> (False, [])
      | ch # cs \<Rightarrow>
          if ch = CHR ''-'' then (True, cs)
          else if ch = CHR ''+'' then (False, cs)
          else (False, ch # cs))"

text \<open>The exponent part: \<^verbatim>\<open>e\<close> or \<^verbatim>\<open>E\<close>, an optional sign, at least one digit.\<close>

definition takeExponent :: "string \<Rightarrow> int" where
  "takeExponent s =
     (case s of
        [] \<Rightarrow> 0
      | ch # cs \<Rightarrow>
          if ch = CHR ''e'' \<or> ch = CHR ''E'' then
            (let (neg, r) = takeSign cs; (v, n, _) = takeDigits r 0 0
             in if n = 0 then 0 else if neg then - int v else int v)
          else 0)"

definition scale10 :: "real \<Rightarrow> int \<Rightarrow> real" where
  "scale10 x e = (if 0 \<le> e then x * 10 ^ nat e else x / 10 ^ nat (- e))"

definition parseFloat :: "string \<Rightarrow> jsnum" where
  "parseFloat s =
     (let (neg, u) = takeSign (dropWhile isWhiteSpace s)
      in if take 8 u = ''Infinity'' then (if neg then NInf else PInf)
         else
           (let (iv, ic, r1) = takeDigits u 0 0;
                (fv, fc, r2) =
                  (case r1 of
                     [] \<Rightarrow> (0, 0, [])
                   | ch # cs \<Rightarrow> if ch = CHR ''.'' then takeDigits cs 0 0 else (0, 0, ch # cs))
            in if ic + fc = 0 then NaN
               else
                 (let mant = real iv + real fv / 10 ^ fc;
                      x = scale10 mant (takeExponent r2)
                  in Fin (if neg then - x else x))))"

text \<open>\<^verbatim>\<open>parseInt(s, 10)\<close>: white space, an optional sign, digits; NaN with no digit.\<close>

definition parseInt10 :: "string \<Rightarrow> jsnum" where
  "parseInt10 s =
     (let (neg, u) = takeSign (dropWhile isWhiteSpace s); (v, n, _) = takeDigits u 0 0
      in if n = 0 then NaN else Fin (if neg then - real v else real v))"

text \<open>
  A value that arrives as \<^verbatim>\<open>number | string\<close>. For a number \<open>n\<close>,
  \<^verbatim>\<open>parseFloat(String(n))\<close> is \<open>n\<close> again.
\<close>

datatype raw = RNum jsnum | RStr string

section \<open>The durable object TradingBotState\<close>

record bot_data =
  date :: "string option"
  startEquity :: "jsnum option"
  hitDailyMaxLoss :: bool
  consecutiveLosses :: nat
  dailyMaxLossPct :: "jsnum option"

text \<open>The object: its in-memory data, the \<^verbatim>\<open>loaded\<close> flag, and what the durable
  storage holds under the key \<^verbatim>\<open>botState\<close> (nothing before the first save).\<close>

record TradingBotState =
  data :: bot_data
  loaded :: bool
  storage :: "bot_data option"

definition initial_data :: bot_data where
  "initial_data =
     \<lparr>date = None, startEquity = None, hitDailyMaxLoss = False,
      consecutiveLosses = 0, dailyMaxLossPct = None\<rparr>"

text \<open>The constructor, run when the object is first created and again after each
  eviction from memory; the storage outlives the object.\<close>

definition constructor :: "bot_data option \<Rightarrow> TradingBotState" where
  "constructor st = \<lparr>data = initial_data, loaded = False, storage = st\<rparr>"

text \<open>\<^verbatim>\<open>loadState\<close>: the stored record is only ever written by \<^verbatim>\<open>saveState\<close>, so each
  field has its type and the field-wise normalisation copies it.\<close>

definition loadState :: "TradingBotState \<Rightarrow> TradingBotState" where
  "loadState s =
     (if loaded s then s
      else (case storage s of
              Some stored \<Rightarrow>
                s\<lparr>data :=
                    \<lparr>date = date stored, startEquity = startEquity stored,
                     hitDailyMaxLoss = hitDailyMaxLoss stored,
                     consecutiveLosses = consecutiveLosses stored,
                     dailyMaxLossPct = dailyMaxLossPct stored\<rparr>,
                  loaded := True\<rparr>
            | None \<Rightarrow> s\<lparr>loaded := True\<rparr>))"

definition saveState :: "TradingBotState \<Rightarrow> TradingBotState" where
  "saveState s = s\<lparr>storage := Some (data s)\<rparr>"

text \<open>\<^verbatim>\<open>typeof x === "number" ? x : parseFloat(String(x) || dflt)\<close>\<close>

definition parseOr :: "raw \<Rightarrow> string \<Rightarrow> jsnum" where
  "parseOr x dflt =
     (case x of RNum n \<Rightarrow> n | RStr s \<Rightarrow> parseFloat (if s = [] then dflt else s))"

record getOrUpdate_result = bot_data +
  currentDayPL :: "jsnum option"

definition handleGetOrUpdate ::
  "TradingBotState \<Rightarrow> string \<Rightarrow> raw \<Rightarrow> raw \<Rightarrow> TradingBotState \<times> getOrUpdate_result" where
  "handleGetOrUpdate s day equityRaw dailyMaxLossPctRaw =
     (let s1 = loadState s;
          eq = parseOr equityRaw ''0'';
          maxLossPct = parseOr dailyMaxLossPctRaw ''0.03'';
          d0 = data s1;
          d1 = (if date d0 \<noteq> Some day \<or> startEquity d0 = None
                then d0\<lparr>date := Some day, startEquity := Some eq,
                        hitDailyMaxLoss := False, consecutiveLosses := 0,
                        dailyMaxLossPct := Some maxLossPct\<rparr>
                else d0\<lparr>dailyMaxLossPct := Some maxLossPct\<rparr>);
          (pl, d2) =
            (case startEquity d1 of
               None \<Rightarrow> (None, d1)
             | Some se \<Rightarrow>
                 (let cur = jsub eq se;
                      maxLoss =
                        jneg (jabs (jmul se
                          (case dailyMaxLossPct d1 of Some p \<Rightarrow> p | None \<Rightarrow> maxLossPct)))
                  in (Some cur,
                      if jle cur maxLoss then d1\<lparr>hitDailyMaxLoss := True\<rparr> else d1)));
          s2 = saveState (s1\<lparr>data := d2\<rparr>)
      in (s2,
          \<lparr>date = date d2, startEquity = startEquity d2,
           hitDailyMaxLoss = hitDailyMaxLoss d2,
           consecutiveLosses = consecutiveLosses d2,
           dailyMaxLossPct = dailyMaxLossPct d2, currentDayPL = pl\<rparr>))"

text \<open>\<^verbatim>\<open>handleRegisterTradeResult\<close> returns the pair \<^verbatim>\<open>{date, consecutiveLosses}\<close>.\<close>

definition handleRegisterTradeResult ::
  "TradingBotState \<Rightarrow> string \<Rightarrow> raw \<Rightarrow> TradingBotState \<times> (string option \<times> nat)" where
  "handleRegisterTradeResult s day pnlRaw =
     (let s1 = loadState s;
          d0 = data s1;
          d1 = (if date d0 \<noteq> Some day
                then d0\<lparr>date := Some day, consecutiveLosses := 0\<rparr> else d0);
          pnl = parseOr pnlRaw ''0'';
          d2 = (if jlt pnl (Fin 0) then d1\<lparr>consecutiveLosses := consecutiveLosses d1 + 1\<rparr>
                else if jgt pnl (Fin 0) then d1\<lparr>consecutiveLosses := 0\<rparr>
                else d1);
          s2 = saveState (s1\<lparr>data := d2\<rparr>)
      in (s2, (date d2, consecutiveLosses d2)))"

text \<open>The two request kinds the object's \<^verbatim>\<open>fetch\<close> dispatches on (a POST whose body
  parses and whose \<^verbatim>\<open>action\<close> is known), and the response each produces.\<close>

datatype request = GetOrUpdate string raw raw | RegisterTradeResult string raw

datatype response =
    GetOrUpdateResponse getOrUpdate_result
  | RegisterTradeResultResponse "string option" nat

fun dispatch :: "TradingBotState \<Rightarrow> request \<Rightarrow> TradingBotState \<times> response" where
  "dispatch s (GetOrUpdate day equity pct) =
     (let (s', r) = handleGetOrUpdate s day equity pct in (s', GetOrUpdateResponse r))"
| "dispatch s (RegisterTradeResult day pnl) =
     (let (s', (d, n)) = handleRegisterTradeResult s day pnl
      in (s', RegisterTradeResultResponse d n))"

text \<open>What happens to the object over time: a request is served, or the object is
  evicted from memory and constructed again over the same storage.\<close>

datatype event = Request request | Evicted

fun step :: "TradingBotState \<Rightarrow> event \<Rightarrow> TradingBotState \<times> response option" where
  "step s (Request q) = (let (s', r) = dispatch s q in (s', Some r))"
| "step s Evicted = (constructor (storage s), None)"

text \<open>The states and responses along a sequence of events, in order.\<close>

fun run :: "TradingBotState \<Rightarrow> event list \<Rightarrow> (TradingBotState \<times> response option) list" where
  "run s [] = []"
| "run s (e # es) = (let (s', r) = step s e in (s', r) # run s' es)"

text \<open>The states the object can be in: created over empty storage, then any events.\<close>

inductive reachable :: "TradingBotState \<Rightarrow> bool" where
  created: "reachable (constructor None)"
| stepped: "reachable s \<Longrightarrow> reachable (fst (step s e))"

text \<open>The data a handler works on: the in-memory data once \<^verbatim>\<open>loadState\<close> has run.\<close>

definition currentData :: "TradingBotState \<Rightarrow> bot_data" where
  "currentData s = data (loadState s)"

text \<open>An event carries the day \<open>day\<close>: a request does when its date is \<open>day\<close>; an
  eviction carries no date.\<close>

fun carries :: "string \<Rightarrow> event \<Rightarrow> bool" where
  "carries day (Request (GetOrUpdate d _ _)) = (d = day)"
| "carries day (Request (RegisterTradeResult d _)) = (d = day)"
| "carries day Evicted = True"

text \<open>The flag as a response reports it (only \<^verbatim>\<open>getOrUpdate\<close> returns the flag).\<close>

fun reportsHit :: "response option \<Rightarrow> bool" where
  "reportsHit (Some (GetOrUpdateResponse r)) = hitDailyMaxLoss r"
| "reportsHit _ = True"

text \<open>The \<^verbatim>\<open>consecutiveLosses\<close> values returned by registering the given results, one
  after the other, on one date.\<close>

fun registerAll :: "TradingBotState \<Rightarrow> string \<Rightarrow> raw list \<Rightarrow> nat list" where
  "registerAll s day [] = []"
| "registerAll s day (p # ps) =
     (let (s', (_, n)) = handleRegisterTradeResult s day p in n # registerAll s' day ps)"


section \<open>The worker's configuration and collaborators\<close>

text \<open>The variables of \<^verbatim>\<open>env\<close> the worker reads; \<open>None\<close> is an unset variable. The
  base URL of the snapshot service only enters the URL of the request and is left
  out.\<close>

record env =
  MASSIVE_API_KEY :: "string option"
  PRICE_MIN :: "string option"
  PRICE_MAX :: "string option"
  PCT_CHANGE_MIN :: "string option"
  REL_VOL_MIN :: "string option"
  VOL_MIN :: "string option"
  MAX_SCREEN :: "string option"
  DRY_RUN :: "string option"
  RISK_PCT_PER_TRADE :: "string option"

text \<open>\<^verbatim>\<open>x ?? dflt\<close>\<close>

definition orDefault :: "string option \<Rightarrow> string \<Rightarrow> string" where
  "orDefault x dflt = (case x of None \<Rightarrow> dflt | Some s \<Rightarrow> s)"

text \<open>\<^verbatim>\<open>toLowerCase\<close>, on ASCII letters.\<close>

definition toLowerCase :: "string \<Rightarrow> string" where
  "toLowerCase s =
     map (\<lambda>ch. let n = (of_char ch :: nat)
               in if 65 \<le> n \<and> n \<le> 90 then char_of (n + 32) else ch) s"

text \<open>A ticker of the snapshot. A field is \<open>None\<close> when it is missing or not a number
  (\<^verbatim>\<open>t.day.c\<close>, \<^verbatim>\<open>t.todaysChangePerc\<close>, \<^verbatim>\<open>t.day.v\<close>, \<^verbatim>\<open>t.min.av\<close>).\<close>

record snapshot_ticker =
  ticker :: string
  day_c :: "jsnum option"
  todaysChangePerc :: "jsnum option"
  day_v :: "jsnum option"
  min_av :: "jsnum option"

text \<open>What the snapshot request does when it is made: \<^verbatim>\<open>fetch\<close> throws, the status is
  not ok, \<^verbatim>\<open>res.json()\<close> throws, or a body arrives, whose \<^verbatim>\<open>tickers\<close> may be absent.\<close>

datatype snapshot_response =
    FetchThrows
  | HttpNotOk
  | JsonThrows
  | JsonBody "snapshot_ticker list option"

text \<open>A one-minute bar (\<^verbatim>\<open>o\<close>, \<^verbatim>\<open>h\<close>, \<^verbatim>\<open>l\<close>, \<^verbatim>\<open>c\<close>, \<^verbatim>\<open>v\<close>), every field a number.\<close>

record bar =
  bar_o :: jsnum
  bar_h :: jsnum
  bar_l :: jsnum
  bar_c :: jsnum
  bar_v :: jsnum

text \<open>The brokerage account; \<open>None\<close> is a null or missing \<^verbatim>\<open>equity\<close>.\<close>

record account =
  equity :: "raw option"

text \<open>The calls a run makes to its collaborators, in order. \<open>RiskStateObtained\<close>
  carries the risk state the call returned, \<open>OrderPlaced\<close> the symbol and quantity.\<close>

datatype effect =
    SnapshotFetch
  | AccountFetch
  | RiskStateObtained getOrUpdate_result
  | PositionsFetch
  | BarsFetch string
  | OrderPlaced string jsnum

section \<open>The watchlist builder\<close>

text \<open>The two module-level variables.\<close>

record globals =
  MASTER_WATCHLIST :: "string list"
  MASTER_WATCHLIST_DAY :: "string option"

definition initial_globals :: globals where
  "initial_globals = \<lparr>MASTER_WATCHLIST = [], MASTER_WATCHLIST_DAY = None\<rparr>"

text \<open>The numeric filters on one ticker (the flag \<^verbatim>\<open>ok\<close> of the loop body), given the
  four thresholds and the price ceiling.\<close>

definition tickerOk ::
  "jsnum \<Rightarrow> jsnum \<Rightarrow> jsnum \<Rightarrow> jsnum \<Rightarrow> jsnum \<Rightarrow> snapshot_ticker \<Rightarrow> bool" where
  "tickerOk priceMin priceMax pctChangeMin relVolMin volMin t =
     (let price = day_c t;
          pctChange = todaysChangePerc t;
          vol = day_v t;
          relVol =
            (case min_av t of
               None \<Rightarrow> None
             | Some av \<Rightarrow>
                 if jgt av (Fin 0) then
                   (case day_v t of None \<Rightarrow> None | Some v \<Rightarrow> Some (jdiv v av))
                 else None);
          ok1 = (case price of None \<Rightarrow> False
                 | Some x \<Rightarrow> \<not> (jlt x priceMin \<or> jgt x priceMax));
          ok2 = (case pctChange of None \<Rightarrow> False
                 | Some x \<Rightarrow> \<not> jlt (jabs x) pctChangeMin);
          ok3 = (case relVol of None \<Rightarrow> False | Some x \<Rightarrow> \<not> jlt x relVolMin);
          ok4 = (case vol of None \<Rightarrow> False | Some x \<Rightarrow> \<not> jlt x volMin)
      in ok1 \<and> ok2 \<and> ok3 \<and> ok4)"

text \<open>The loop over the tickers: a passing symbol is pushed, and the loop stops once
  \<^verbatim>\<open>passed.length >= MAX_SCREEN\<close>.\<close>

fun collectPassed ::
  "(snapshot_ticker \<Rightarrow> bool) \<Rightarrow> jsnum \<Rightarrow> snapshot_ticker list \<Rightarrow> string list \<Rightarrow> string list"
  where
  "collectPassed okf maxScreen [] passed = passed"
| "collectPassed okf maxScreen (t # ts) passed =
     (if okf t then
        (let passed' = passed @ [ticker t]
         in if jge (Fin (real (length passed'))) maxScreen then passed'
            else collectPassed okf maxScreen ts passed')
      else collectPassed okf maxScreen ts passed)"

text \<open>\<^verbatim>\<open>getOrBuildMasterWatchlist\<close>: the new globals, the watchlist returned, and the
  calls made. \<open>resp\<close> is what the snapshot request does if it is made.\<close>

definition getOrBuildMasterWatchlist ::
  "env \<Rightarrow> snapshot_response \<Rightarrow> globals \<Rightarrow> string \<Rightarrow> globals \<times> string list \<times> effect list"
  where
  "getOrBuildMasterWatchlist ev resp g nyDayKey =
     (if MASTER_WATCHLIST_DAY g = Some nyDayKey \<and> length (MASTER_WATCHLIST g) > 0
      then (g, MASTER_WATCHLIST g, [])
      else
        (let failed = \<lparr>MASTER_WATCHLIST = [], MASTER_WATCHLIST_DAY = Some nyDayKey\<rparr>
         in if MASSIVE_API_KEY ev = None \<or> MASSIVE_API_KEY ev = Some []
            then (failed, [], [])
            else
              (case resp of
                 FetchThrows \<Rightarrow> (failed, [], [SnapshotFetch])
               | HttpNotOk \<Rightarrow> (failed, [], [SnapshotFetch])
               | JsonThrows \<Rightarrow> (failed, [], [SnapshotFetch])
               | JsonBody body \<Rightarrow>
                   (let tickers = (case body of None \<Rightarrow> [] | Some ts \<Rightarrow> ts);
                        passed =
                          collectPassed
                            (tickerOk
                               (parseFloat (orDefault (PRICE_MIN ev) ''5''))
                               (parseFloat (orDefault (PRICE_MAX ev) ''200''))
                               (parseFloat (orDefault (PCT_CHANGE_MIN ev) ''2''))
                               (parseFloat (orDefault (REL_VOL_MIN ev) ''1.5''))
                               (parseFloat (orDefault (VOL_MIN ev) ''500000'')))
                            (parseInt10 (orDefault (MAX_SCREEN ev) ''100''))
                            tickers []
                    in (\<lparr>MASTER_WATCHLIST = passed, MASTER_WATCHLIST_DAY = Some nyDayKey\<rparr>,
                        passed, [SnapshotFetch])))))"

text \<open>Consecutive calls for one day, each with its own configuration and its own answer
  of the snapshot service: the watchlist each call returns and the calls it makes.\<close>

fun callsForDay ::
  "globals \<Rightarrow> string \<Rightarrow> (env \<times> snapshot_response) list \<Rightarrow> (string list \<times> effect list) list"
  where
  "callsForDay g day [] = []"
| "callsForDay g day ((ev, resp) # cs) =
     (let (g', wl, fx) = getOrBuildMasterWatchlist ev resp g day
      in (wl, fx) # callsForDay g' day cs)"

section \<open>The signal scanner\<close>

subsection \<open>Helpers\<close>

text \<open>Modelled from the spec: \<^verbatim>\<open>isGreen\<close> and \<^verbatim>\<open>isRed\<close> are called by the scanner and
  their bodies are not part of the source at hand. "A bar is green iff close > open,
  red iff close < open."\<close>

definition isGreen :: "bar \<Rightarrow> bool" where
  "isGreen b = jgt (bar_c b) (bar_o b)"

definition isRed :: "bar \<Rightarrow> bool" where
  "isRed b = jlt (bar_c b) (bar_o b)"

text \<open>Modelled from the spec: \<^verbatim>\<open>getSessionOpenPrice\<close> is called by the scanner and its
  body is not part of the source at hand. "sessionOpen = open of the first bar of the
  window", the window being the most recent 30 bars.\<close>

definition getSessionOpenPrice :: "bar list \<Rightarrow> jsnum" where
  "getSessionOpenPrice bs =
     (case drop (length bs - 30) bs of [] \<Rightarrow> NaN | b # _ \<Rightarrow> bar_o b)"

text \<open>Modelled from the spec: \<^verbatim>\<open>calculateMACD\<close> is called by the scanner and its body
  is not part of the source at hand. An exponential moving average has smoothing
  \<open>k = 2 / (period + 1)\<close>, is seeded by the simple average of the first \<open>period\<close>
  values and continues with \<open>ema[i] = close[i] * k + ema[i-1] * (1 - k)\<close>; the line
  is the fast average minus the slow one where both are defined; the signal is the
  average of the line; the result is the last line and signal value and their
  difference, and is undefined with fewer than \<open>slow + signal\<close> observations.\<close>

record macd_result =
  line :: jsnum
  signal :: jsnum
  histogram :: jsnum

fun emaFrom :: "jsnum \<Rightarrow> jsnum \<Rightarrow> jsnum list \<Rightarrow> jsnum list" where
  "emaFrom k prev [] = []"
| "emaFrom k prev (x # xs) =
     (let e = jadd (jmul x k) (jmul prev (jsub (Fin 1) k)) in e # emaFrom k e xs)"

definition ema :: "jsnum list \<Rightarrow> nat \<Rightarrow> jsnum list" where
  "ema xs period =
     (if period = 0 \<or> length xs < period then []
      else
        (let k = jdiv (Fin 2) (Fin (real period + 1));
             seed = jdiv (foldl jadd (Fin 0) (take period xs)) (Fin (real period))
         in seed # emaFrom k seed (drop period xs)))"

definition calculateMACD :: "jsnum list \<Rightarrow> nat \<Rightarrow> nat \<Rightarrow> nat \<Rightarrow> macd_result option" where
  "calculateMACD closes fast slow sig =
     (if length closes < slow + sig then None
      else
        (let emaFast = ema closes fast;
             emaSlow = ema closes slow;
             macdLine =
               map (\<lambda>(f, s). jsub f s)
                 (zip (drop (length emaFast - length emaSlow) emaFast) emaSlow);
             signalLine = ema macdLine sig
         in if macdLine = [] \<or> signalLine = [] then None
            else Some \<lparr>line = last macdLine, signal = last signalLine,
                       histogram = jsub (last macdLine) (last signalLine)\<rparr>))"

subsection \<open>Patterns\<close>

datatype pattern = PULLBACK | ABCD

text \<open>The search for point B: the first bar with the greatest high, from the index
  \<open>i\<close> on, with the best index and high so far.\<close>

fun findB :: "bar list \<Rightarrow> nat \<Rightarrow> nat \<Rightarrow> jsnum \<Rightarrow> nat \<times> jsnum" where
  "findB [] i bIdx bHigh = (bIdx, bHigh)"
| "findB (b # bs) i bIdx bHigh =
     (if jgt (bar_h b) bHigh then findB bs (Suc i) i (bar_h b)
      else findB bs (Suc i) bIdx bHigh)"

text \<open>The search for point C: the lowest low of the remaining bars.\<close>

fun findC :: "bar list \<Rightarrow> jsnum \<Rightarrow> jsnum" where
  "findC [] lowest = lowest"
| "findC (b # bs) lowest =
     (if jlt (bar_l b) lowest then findC bs (bar_l b) else findC bs lowest)"

text \<open>Pattern B of the loop body, for at least 30 bars: \<^verbatim>\<open>isABCDSetup\<close>,
  \<^verbatim>\<open>entryTriggerABCD\<close> and \<^verbatim>\<open>pointCPrice\<close>.\<close>

definition abcdCheck :: "bar list \<Rightarrow> bool \<times> jsnum option \<times> jsnum option" where
  "abcdCheck bs =
     (let current = bs ! (length bs - 1);
          lookback = 30;
          startIdx = length bs - lookback;
          (bIdx, bHigh) = findB (drop (startIdx + 1) bs) (startIdx + 1) startIdx
                            (bar_h (bs ! startIdx));
          pointBPrice = bHigh
      in if bIdx < length bs - 1 then
           (let pointCPrice = findC (drop (bIdx + 2) bs) (bar_l (bs ! (bIdx + 1)));
                sessionOpen = getSessionOpenPrice bs;
                isHigherLow = jgt pointCPrice sessionOpen;
                isCurlingUp = (jgt (bar_c current) pointCPrice \<and> jlt (bar_c current) pointBPrice)
            in (isHigherLow \<and> isCurlingUp, Some pointBPrice, Some pointCPrice))
         else (False, None, None))"

text \<open>"Choose pattern and trigger": the pullback first, then the ABCD setup.\<close>

definition choosePattern :: "bar list \<Rightarrow> jsnum \<times> pattern option \<times> jsnum option" where
  "choosePattern bs =
     (let last = bs ! (length bs - 2);
          prev = bs ! (length bs - 3);
          isPullback = (isGreen prev \<and> isRed last);
          entryTriggerPullback = bar_h last;
          (isABCDSetup, entryTriggerABCD, pointCPrice) = abcdCheck bs
      in if isPullback then (entryTriggerPullback, Some PULLBACK, pointCPrice)
         else (case entryTriggerABCD of
                 Some trig \<Rightarrow>
                   if isABCDSetup then (trig, Some ABCD, pointCPrice)
                   else (Fin 0, None, pointCPrice)
               | None \<Rightarrow> (Fin 0, None, pointCPrice)))"

text \<open>The breakout test on the current and the last completed bar.\<close>

definition breakoutConfirmed :: "bar list \<Rightarrow> jsnum \<Rightarrow> bool" where
  "breakoutConfirmed bs triggerPrice =
     (let current = bs ! (length bs - 1);
          last = bs ! (length bs - 2);
          isHighVolume = jgt (bar_v current) (bar_v last);
          priceNow = bar_c current
      in jge priceNow triggerPrice \<and> isHighVolume)"

text \<open>\<^verbatim>\<open>parseFloat(String(account.equity ?? "0"))\<close>\<close>

definition accountEquity :: "account \<Rightarrow> jsnum" where
  "accountEquity a =
     (case equity a of None \<Rightarrow> parseFloat ''0'' | Some (RNum n) \<Rightarrow> n
      | Some (RStr s) \<Rightarrow> parseFloat s)"

text \<open>The risk per share before and after the fallback to one percent of the price.\<close>

definition riskPerShareOf ::
  "pattern \<Rightarrow> jsnum \<Rightarrow> jsnum \<Rightarrow> jsnum option \<Rightarrow> jsnum \<Rightarrow> jsnum" where
  "riskPerShareOf pat triggerPrice lastLow pointCPrice priceNow =
     (let r0 = (case pat of
                  PULLBACK \<Rightarrow> jsub triggerPrice lastLow
                | ABCD \<Rightarrow>
                    (case pointCPrice of
                       Some c \<Rightarrow> jsub triggerPrice c
                     | None \<Rightarrow> jmul priceNow (Fin 0.01)))
      in if \<not> isFinite r0 \<or> jle r0 (Fin 0) then jmul priceNow (Fin 0.01) else r0)"

text \<open>The sizing: the shares, the dollars at risk and the risk per share, or nothing
  when the shares are not finite or not positive.\<close>

definition sizePosition ::
  "jsnum \<Rightarrow> jsnum \<Rightarrow> pattern \<Rightarrow> jsnum \<Rightarrow> jsnum \<Rightarrow> jsnum option \<Rightarrow> jsnum
     \<Rightarrow> (jsnum \<times> jsnum \<times> jsnum) option" where
  "sizePosition eqty riskPct pat triggerPrice lastLow pointCPrice priceNow =
     (let riskDollars' = jmul eqty riskPct;
          riskPerShare' = riskPerShareOf pat triggerPrice lastLow pointCPrice priceNow;
          shares' = jfloor (jdiv riskDollars' riskPerShare')
      in if \<not> isFinite shares' \<or> jle shares' (Fin 0) then None
         else Some (shares', riskDollars', riskPerShare'))"

record action =
  symbol :: string
  pattern :: pattern
  priceNow :: jsnum
  triggerPrice :: jsnum
  shares :: jsnum
  riskDollars :: jsnum
  riskPerShare :: jsnum

text \<open>How the loop body ends for one symbol.\<close>

datatype outcome =
    PositionOpen
  | NotEnoughBars
  | NoMACD
  | MACDNotPositive
  | NoSetup
  | NotConfirmed
  | SizingFailed
  | Entered action

text \<open>The loop body from the bars on, for at least 30 bars.\<close>

definition evaluateBars :: "jsnum \<Rightarrow> account \<Rightarrow> string \<Rightarrow> bar list \<Rightarrow> outcome" where
  "evaluateBars riskPct acct symb bs =
     (let current = bs ! (length bs - 1);
          last = bs ! (length bs - 2)
      in case calculateMACD (map bar_c bs) 12 26 9 of
           None \<Rightarrow> NoMACD
         | Some macd \<Rightarrow>
             if \<not> jgt (line macd) (signal macd) then MACDNotPositive
             else
               (let (trig, pat, pointCPrice) = choosePattern bs
                in case pat of
                     None \<Rightarrow> NoSetup
                   | Some p \<Rightarrow>
                       if \<not> jgt trig (Fin 0) then NoSetup
                       else if \<not> breakoutConfirmed bs trig then NotConfirmed
                       else
                         (case sizePosition (accountEquity acct) riskPct p trig
                                 (bar_l last) pointCPrice (bar_c current) of
                            None \<Rightarrow> SizingFailed
                          | Some (sh, rd, rps) \<Rightarrow>
                              Entered \<lparr>symbol = symb, pattern = p, priceNow = bar_c current,
                                       triggerPrice = trig, shares = sh, riskDollars = rd,
                                       riskPerShare = rps\<rparr>)))"

text \<open>The loop body for one symbol: the one-bullet rule, the bars, the evaluation.
  \<open>held\<close> are the symbols with an open position, \<open>fetched\<close> is what
  \<^verbatim>\<open>fetch1MinBars\<close> returns for the symbol (\<open>None\<close> is null).\<close>

definition scanSymbol ::
  "jsnum \<Rightarrow> account \<Rightarrow> string list \<Rightarrow> (string \<Rightarrow> bar list option) \<Rightarrow> string \<Rightarrow> outcome" where
  "scanSymbol riskPct acct held fetched symb =
     (if symb \<in> set held then PositionOpen
      else (case fetched symb of
              None \<Rightarrow> NotEnoughBars
            | Some bs \<Rightarrow>
                if length bs < 30 then NotEnoughBars else evaluateBars riskPct acct symb bs))"

record scan_result =
  scanned :: nat
  signals :: nat
  actions :: "action list"

text \<open>The calls one symbol's turn makes: the bars unless a position is open, and the
  order when an action is produced outside dry-run mode.\<close>

definition effectsOf :: "bool \<Rightarrow> string \<Rightarrow> outcome \<Rightarrow> effect list" where
  "effectsOf dryRun symb out =
     (case out of
        PositionOpen \<Rightarrow> []
      | Entered a \<Rightarrow> BarsFetch symb # (if dryRun then [] else [OrderPlaced symb (shares a)])
      | _ \<Rightarrow> [BarsFetch symb])"

text \<open>The loop over the watchlist, with the counters and actions so far.\<close>

fun scanLoop ::
  "bool \<Rightarrow> jsnum \<Rightarrow> account \<Rightarrow> string list \<Rightarrow> (string \<Rightarrow> bar list option) \<Rightarrow> string list
     \<Rightarrow> scan_result \<Rightarrow> effect list \<Rightarrow> scan_result \<times> effect list" where
  "scanLoop dryRun riskPct acct held fetched [] acc fx = (acc, fx)"
| "scanLoop dryRun riskPct acct held fetched (symb # syms) acc fx =
     (let out = scanSymbol riskPct acct held fetched symb;
          acc1 = acc\<lparr>scanned := scanned acc + 1\<rparr>;
          acc2 = (case out of
                    SizingFailed \<Rightarrow> acc1\<lparr>signals := signals acc1 + 1\<rparr>
                  | Entered a \<Rightarrow>
                      acc1\<lparr>signals := signals acc1 + 1, actions := actions acc1 @ [a]\<rparr>
                  | _ \<Rightarrow> acc1)
      in scanLoop dryRun riskPct acct held fetched syms acc2
           (fx @ effectsOf dryRun symb out))"

text \<open>\<^verbatim>\<open>scanAndTrade_H3\<close>. Modelled from the spec: the source at hand ends inside the
  call of \<^verbatim>\<open>placeMarketOrder\<close>; the value returned is taken from the run result of the
  specification, which carries \<open>scanned\<close>, \<open>signals\<close> and \<open>actions\<close>.\<close>

definition scanAndTrade_H3 ::
  "env \<Rightarrow> string list \<Rightarrow> string list \<Rightarrow> account \<Rightarrow> (string \<Rightarrow> bar list option)
     \<Rightarrow> scan_result \<times> effect list" where
  "scanAndTrade_H3 ev watchlist held acct fetched =
     (let dryRun = (toLowerCase (orDefault (DRY_RUN ev) ''true'') = ''true'');
          riskPct = parseFloat (orDefault (RISK_PCT_PER_TRADE ev) ''0.01'')
      in scanLoop dryRun riskPct acct held fetched watchlist
           \<lparr>scanned = 0, signals = 0, actions = []\<rparr> [])"

section \<open>One run of the bot\<close>

text \<open>What the collaborators answer during one run. \<open>nyMinutes\<close> and \<open>nyDayKey\<close> are
  the minutes after midnight and the day in New York; \<open>riskStateOf\<close> is the answer of
  \<^verbatim>\<open>getRiskState\<close> for a day and an equity. These helpers are called by the run and
  are not part of the source at hand.\<close>

record world =
  nyMinutes :: int
  nyDayKey :: string
  snapshot :: snapshot_response
  alpacaAccount :: "account option"
  riskStateOf :: "string \<Rightarrow> jsnum \<Rightarrow> getOrUpdate_result"
  positions :: "string list"
  bars :: "string \<Rightarrow> bar list option"

record run_result =
  ok :: bool
  reason :: "string option"
  riskState :: "getOrUpdate_result option"
  scan :: "scan_result option"

definition ENTRY_WINDOW_START :: int where
  "ENTRY_WINDOW_START = 9 * 60 + 24"

definition ENTRY_WINDOW_END :: int where
  "ENTRY_WINDOW_END = 11 * 60"

definition stopped :: "bool \<Rightarrow> string \<Rightarrow> run_result" where
  "stopped k r = \<lparr>ok = k, reason = Some r, riskState = None, scan = None\<rparr>"

definition runBotOnce ::
  "env \<Rightarrow> world \<Rightarrow> bool \<Rightarrow> globals \<Rightarrow> run_result \<times> globals \<times> effect list" where
  "runBotOnce ev w force g =
     (if \<not> force \<and> nyMinutes w < ENTRY_WINDOW_START then (stopped True ''too-early'', g, [])
      else if \<not> force \<and> nyMinutes w > ENTRY_WINDOW_END then (stopped True ''too-late'', g, [])
      else
        (let (g1, watchlist, fx1) = getOrBuildMasterWatchlist ev (snapshot w) g (nyDayKey w)
         in if length watchlist = 0 then (stopped False ''empty-watchlist'', g1, fx1)
            else
              (case alpacaAccount w of
                 None \<Rightarrow> (stopped False ''account-fetch-failed'', g1, fx1 @ [AccountFetch])
               | Some acct \<Rightarrow>
                   (let eqty = accountEquity acct;
                        rs = riskStateOf w (nyDayKey w) eqty;
                        fx2 = fx1 @ [AccountFetch, RiskStateObtained rs]
                    in if hitDailyMaxLoss rs \<and> \<not> force
                       then (\<lparr>ok = True, reason = Some ''daily-max-loss-hit'',
                               riskState = Some rs, scan = None\<rparr>, g1, fx2)
                       else
                         (let (scanResult, fx3) =
                                scanAndTrade_H3 ev watchlist (positions w) acct (bars w)
                          in (\<lparr>ok = True, reason = None, riskState = Some rs,
                                scan = Some scanResult\<rparr>,
                              g1, fx2 @ [PositionsFetch] @ fx3))))))"

section \<open>Invariant of the durable object\<close>

text \<open>
  The invariant of the reachable states: a loaded object agrees with its storage, an
  object not yet loaded holds the constructor's data, and the flag is only ever set
  together with a baseline equity.
\<close>

definition consistent :: "TradingBotState \<Rightarrow> bool" where
  "consistent s =
     ((if loaded s then storage s = Some (data s) else data s = initial_data) \<and>
      (hitDailyMaxLoss (currentData s) \<longrightarrow> startEquity (currentData s) \<noteq> None))"

text \<open>The flag is set for the day \<open>day\<close>, in a state that satisfies the invariant.\<close>

definition tripped :: "string \<Rightarrow> TradingBotState \<Rightarrow> bool" where
  "tripped day s =
     (consistent s \<and> hitDailyMaxLoss (currentData s) \<and> date (currentData s) = Some day)"

section \<open>Example inputs\<close>

text \<open>The example of the specification: on a fresh object, the equity 10000 is
  observed and then 9600, with a daily maximum loss of 3 percent; and a later part of
  the same day, in which the equity recovers.\<close>

definition example_day :: string where
  "example_day = ''2024-01-02''"

definition example_tripped :: TradingBotState where
  "example_tripped =
     fst (step (fst (step (constructor None)
       (Request (GetOrUpdate example_day (RNum (Fin 10000)) (RNum (Fin 0.03))))))
       (Request (GetOrUpdate example_day (RNum (Fin 9600)) (RNum (Fin 0.03)))))"

definition example_later :: "event list" where
  "example_later =
     [Request (GetOrUpdate example_day (RNum (Fin 9999)) (RNum (Fin 0.03))),
      Request (RegisterTradeResult example_day (RNum (Fin 50))),
      Evicted,
      Request (GetOrUpdate example_day (RStr ''12000'') (RStr ''0.03''))]"

text \<open>A configuration with an API key and every threshold at its default, and a ticker
  that passes the default filters.\<close>

definition example_env :: env where
  "example_env =
     \<lparr>MASSIVE_API_KEY = Some ''key'', PRICE_MIN = None, PRICE_MAX = None,
      PCT_CHANGE_MIN = None, REL_VOL_MIN = None, VOL_MIN = None, MAX_SCREEN = None,
      DRY_RUN = None, RISK_PCT_PER_TRADE = None\<rparr>"

definition example_ticker :: snapshot_ticker where
  "example_ticker =
     \<lparr>ticker = ''ACME'', day_c = Some (Fin 20), todaysChangePerc = Some (Fin 5),
      day_v = Some (Fin 1000000), min_av = Some (Fin 1000)\<rparr>"

text \<open>Thirty-five one-minute bars: a flat stretch, a green bar, a red bar with high 20
  and low 19.5, and a current bar that closes above 20 on twice the volume.\<close>

definition flatBar :: bar where
  "flatBar =
     \<lparr>bar_o = Fin 19.8, bar_h = Fin 19.8, bar_l = Fin 19.8, bar_c = Fin 19.8,
      bar_v = Fin 100\<rparr>"

definition example_bars :: "bar list" where
  "example_bars =
     replicate 32 flatBar @
     [\<lparr>bar_o = Fin 19.7, bar_h = Fin 19.8, bar_l = Fin 19.7, bar_c = Fin 19.8,
       bar_v = Fin 100\<rparr>,
      \<lparr>bar_o = Fin 19.9, bar_h = Fin 20, bar_l = Fin 19.5, bar_c = Fin 19.8,
       bar_v = Fin 100\<rparr>,
      \<lparr>bar_o = Fin 19.8, bar_h = Fin 20.1, bar_l = Fin 19.8, bar_c = Fin 20.1,
       bar_v = Fin 200\<rparr>]"

text \<open>A durable object that observed the equity 10000 earlier on the example day; a
  world in New York minute \<open>m\<close> of that day in which the snapshot has the example
  ticker, the account reports the equity \<open>e\<close>, the risk state is answered by that
  object, no position is open and every symbol has the example bars; and the risk state
  such a run obtains.\<close>

definition example_baseline :: TradingBotState where
  "example_baseline =
     fst (handleGetOrUpdate (constructor None) example_day (RNum (Fin 10000)) (RNum (Fin 0.03)))"

definition example_world :: "int \<Rightarrow> string \<Rightarrow> world" where
  "example_world m e =
     \<lparr>nyMinutes = m, nyDayKey = example_day,
      snapshot = JsonBody (Some [example_ticker]),
      alpacaAccount = Some \<lparr>equity = Some (RStr e)\<rparr>,
      riskStateOf = (\<lambda>d q. snd (handleGetOrUpdate example_baseline d (RNum q) (RNum (Fin 0.03)))),
      positions = [],
      bars = (\<lambda>_. Some example_bars)\<rparr>"

definition example_risk :: "real \<Rightarrow> bool \<Rightarrow> getOrUpdate_result" where
  "example_risk pl hit =
     \<lparr>date = Some example_day, startEquity = Some (Fin 10000), hitDailyMaxLoss = hit,
      consecutiveLosses = 0, dailyMaxLossPct = Some (Fin 0.03), currentDayPL = Some (Fin pl)\<rparr>"

section \<open>Properties of the durable object\<close>

subsection \<open>Evaluation and invariants\<close>

lemmas handler_defs =
  handleGetOrUpdate_def handleRegisterTradeResult_def loadState_def saveState_def
  constructor_def initial_data_def parseOr_def currentData_def Let_def jsub_def jgt_def

lemmas parse_defs =
  parseFloat_def takeSign_def isWhiteSpace_def digitValue_def takeExponent_def scale10_def

lemma jlt_asym: "jlt a b \<Longrightarrow> \<not> jlt b a"
  by (cases a; cases b) simp_all

lemma jlt_irrefl: "\<not> jlt a a"
  by (cases a) simp_all

text \<open>After a handler the object is loaded and the storage holds its data.\<close>

lemma after_getOrUpdate:
  "currentData (fst (handleGetOrUpdate s day e p)) = data (fst (handleGetOrUpdate s day e p))"
  "loaded (fst (handleGetOrUpdate s day e p))"
  "storage (fst (handleGetOrUpdate s day e p)) = Some (data (fst (handleGetOrUpdate s day e p)))"
  "startEquity (data (fst (handleGetOrUpdate s day e p))) \<noteq> None"
  by (auto simp: handleGetOrUpdate_def currentData_def Let_def saveState_def loadState_def
      split: option.splits prod.splits)

lemma after_register:
  "currentData (fst (handleRegisterTradeResult s day p)) =
     data (fst (handleRegisterTradeResult s day p))"
  "loaded (fst (handleRegisterTradeResult s day p))"
  "storage (fst (handleRegisterTradeResult s day p)) =
     Some (data (fst (handleRegisterTradeResult s day p)))"
  "startEquity (data (fst (handleRegisterTradeResult s day p))) = startEquity (currentData s)"
  "hitDailyMaxLoss (data (fst (handleRegisterTradeResult s day p))) =
     hitDailyMaxLoss (currentData s)"
  "dailyMaxLossPct (data (fst (handleRegisterTradeResult s day p))) =
     dailyMaxLossPct (currentData s)"
  by (auto simp: handleRegisterTradeResult_def currentData_def Let_def saveState_def loadState_def
      split: option.splits prod.splits)

lemma consistent_created: "consistent (constructor None)"
  by (simp add: consistent_def constructor_def currentData_def loadState_def initial_data_def)

lemma currentData_evicted: "consistent s \<Longrightarrow> currentData (constructor (storage s)) = currentData s"
  by (auto simp: consistent_def currentData_def constructor_def loadState_def initial_data_def
      split: option.splits if_splits)

lemma fst_step_simps:
  "fst (step s (Request (GetOrUpdate day e p))) = fst (handleGetOrUpdate s day e p)"
  "fst (step s (Request (RegisterTradeResult day p))) =
     fst (handleRegisterTradeResult s day p)"
  "fst (step s Evicted) = constructor (storage s)"
  by (simp_all split: prod.splits)

lemma consistent_step:
  assumes c: "consistent s"
  shows "consistent (fst (step s e))"
proof (cases e)
  case (Request q)
  show ?thesis
  proof (cases q)
    case (GetOrUpdate day eq p)
    then show ?thesis using Request
      by (simp only: fst_step_simps) (simp add: consistent_def after_getOrUpdate)
  next
    case (RegisterTradeResult day p)
    then show ?thesis using Request c
      by (simp only: fst_step_simps) (simp add: consistent_def after_register)
  qed
next
  case Evicted
  have "currentData (constructor (storage s)) = currentData s" using c by (rule currentData_evicted)
  then show ?thesis using Evicted c
    by (simp only: fst_step_simps) (simp add: consistent_def constructor_def)
qed

lemma reachable_consistent: "reachable s \<Longrightarrow> consistent s"
  by (induction rule: reachable.induct) (auto intro: consistent_created consistent_step)

lemma getOrUpdate_keeps_hit:
  assumes "hitDailyMaxLoss (currentData s)" "date (currentData s) = Some day"
    "startEquity (currentData s) \<noteq> None"
  shows "hitDailyMaxLoss (data (fst (handleGetOrUpdate s day e p)))"
    and "hitDailyMaxLoss (snd (handleGetOrUpdate s day e p))"
    and "date (data (fst (handleGetOrUpdate s day e p))) = Some day"
  using assms
  by (auto simp: handleGetOrUpdate_def currentData_def Let_def saveState_def
      split: option.splits prod.splits)

lemma register_keeps_date:
  assumes "date (currentData s) = Some day"
  shows "date (data (fst (handleRegisterTradeResult s day p))) = Some day"
  using assms
  by (auto simp: handleRegisterTradeResult_def currentData_def Let_def saveState_def
      split: option.splits prod.splits)

lemma tripped_step:
  assumes t: "tripped day s" and c: "carries day e"
  shows "tripped day (fst (step s e)) \<and> reportsHit (snd (step s e))"
proof -
  from t have cs: "consistent s" and h: "hitDailyMaxLoss (currentData s)"
    and d: "date (currentData s) = Some day" by (simp_all add: tripped_def)
  from cs h have se: "startEquity (currentData s) \<noteq> None" by (simp add: consistent_def)
  have cs': "consistent (fst (step s e))" using cs by (rule consistent_step)
  show ?thesis
  proof (cases e)
    case (Request q)
    show ?thesis
    proof (cases q)
      case (GetOrUpdate d' eq p)
      with Request c have [simp]: "d' = day" by simp
      have r: "snd (step s e) =
          Some (GetOrUpdateResponse (snd (handleGetOrUpdate s day eq p)))"
        using Request GetOrUpdate by (simp split: prod.splits)
      have f: "fst (step s e) = fst (handleGetOrUpdate s day eq p)"
        using Request GetOrUpdate by (simp add: fst_step_simps del: step.simps)
      show ?thesis using cs' getOrUpdate_keeps_hit[OF h d se]
        by (simp add: tripped_def r) (simp add: f after_getOrUpdate)
    next
      case (RegisterTradeResult d' p)
      with Request c have [simp]: "d' = day" by simp
      have r: "snd (step s e) =
          Some (RegisterTradeResultResponse
                 (fst (snd (handleRegisterTradeResult s day p)))
                 (snd (snd (handleRegisterTradeResult s day p))))"
        using Request RegisterTradeResult by (simp split: prod.splits)
      have f: "fst (step s e) = fst (handleRegisterTradeResult s day p)"
        using Request RegisterTradeResult by (simp add: fst_step_simps del: step.simps)
      show ?thesis using cs' register_keeps_date[OF d] h
        by (simp add: tripped_def r) (simp add: f after_register)
    qed
  next
    case Evicted
    have "currentData (constructor (storage s)) = currentData s" using cs by (rule currentData_evicted)
    then show ?thesis using Evicted cs' h d
      by (simp add: tripped_def)
  qed
qed

lemma run_Cons:
  "run s (e # es) = (fst (step s e), snd (step s e)) # run (fst (step s e)) es"
  by (simp split: prod.splits)

lemma tripped_run:
  "tripped day s \<Longrightarrow> \<forall>e \<in> set es. carries day e \<Longrightarrow>
     \<forall>(s', r) \<in> set (run s es). hitDailyMaxLoss (currentData s') \<and> reportsHit r"
proof (induction es arbitrary: s)
  case Nil
  then show ?case by simp
next
  case (Cons e es)
  from Cons.prems have st: "tripped day (fst (step s e)) \<and> reportsHit (snd (step s e))"
    by (intro tripped_step) simp_all
  with Cons.IH[of "fst (step s e)"] Cons.prems(2)
  show ?case by (simp only: run_Cons) (simp add: tripped_def case_prod_beta)
qed

subsection \<open>Unparsable equity\<close>

text \<open>
  C2. A call to \<^verbatim>\<open>getOrUpdate\<close> whose equity cannot be parsed is said to treat the
  equity as 0. On a fresh object the call with the equity \<^verbatim>\<open>"abc"\<close> returns and saves
  without aborting, but the baseline it stores is NaN, not 0: the fallback string
  \<^verbatim>\<open>"0"\<close> is used only for the empty string. The day's profit and loss is then NaN and
  the loss flag stays clear, also for a later observation of the same day.
\<close>

theorem getOrUpdate_unparsable_equity_is_NaN:
  "(let (s1, r1) = handleGetOrUpdate (constructor None) ''2024-01-02''
                     (RStr ''abc'') (RNum (Fin 0.03));
        (s2, r2) = handleGetOrUpdate s1 ''2024-01-02'' (RNum (Fin 0)) (RNum (Fin 0.03))
    in startEquity r1 = Some NaN \<and> startEquity r1 \<noteq> Some (Fin 0) \<and>
       currentDayPL r1 = Some NaN \<and> \<not> hitDailyMaxLoss r1 \<and>
       storage s1 = Some (data s1) \<and> startEquity (data s1) = Some NaN \<and>
       startEquity r2 = Some NaN \<and> currentDayPL r2 = Some NaN \<and> \<not> hitDailyMaxLoss r2)"
  by (simp add: handler_defs parse_defs)

theorem getOrUpdate_unparsable_equity_is_NaN_witness:
  "startEquity (snd (handleGetOrUpdate (constructor None) ''2024-01-02''
                      (RStr ''abc'') (RNum (Fin 0.03)))) = Some NaN"
  using getOrUpdate_unparsable_equity_is_NaN by (simp add: case_prod_beta Let_def)

subsection \<open>Profit and loss of the day, and the loss flag\<close>



subsection \<open>The loss flag is sticky\<close>

text \<open>
  C4. In every state the object can reach, once \<open>hitDailyMaxLoss\<close> is true for the
  stored date, it is true in every later state and in every \<^verbatim>\<open>getOrUpdate\<close> result,
  along any sequence of \<^verbatim>\<open>getOrUpdate\<close> and \<^verbatim>\<open>registerTradeResult\<close> calls that carry the
  stored date (and any evictions of the object in between), whatever the equity.
\<close>

theorem hitDailyMaxLoss_sticky:
  assumes "reachable s" and "hitDailyMaxLoss (currentData s)" and "date (currentData s) = Some day"
    and "\<forall>e \<in> set es. carries day e"
  shows "\<forall>(s', r) \<in> set (run s es). hitDailyMaxLoss (currentData s') \<and> reportsHit r"
  using assms by (intro tripped_run) (simp_all add: tripped_def reachable_consistent)


theorem hitDailyMaxLoss_sticky_witness:
  "reachable example_tripped \<and> hitDailyMaxLoss (currentData example_tripped) \<and>
   date (currentData example_tripped) = Some example_day \<and>
   list_all (carries example_day) example_later \<and>
   list_all (\<lambda>(s', r). hitDailyMaxLoss (currentData s') \<and> reportsHit r)
     (run example_tripped example_later)"
proof -
  have r: "reachable example_tripped"
    unfolding example_tripped_def by (intro reachable.stepped reachable.created)
  have h: "hitDailyMaxLoss (currentData example_tripped)"
    by (simp add: example_tripped_def handler_defs split: prod.splits)
  have d: "date (currentData example_tripped) = Some example_day"
    by (simp add: example_tripped_def handler_defs split: prod.splits)
  have c: "\<forall>e \<in> set example_later. carries example_day e"
    by (simp add: example_later_def)
  from hitDailyMaxLoss_sticky [OF r h d c] r h d c show ?thesis
    by (simp add: list_all_iff)
qed

subsection \<open>Counting consecutive losses\<close>

text \<open>
  C5. A \<^verbatim>\<open>registerTradeResult\<close> call with the stored date returns, and stores, the
  counter incremented by 1 if \<open>pnl < 0\<close>, reset to 0 if \<open>pnl > 0\<close>, and unchanged if
  \<open>pnl = 0\<close> (and also when \<open>pnl\<close> is NaN, which is neither). The results
  \<open>[-5, -3, +2, -1]\<close> registered on one date on a fresh object return the counters
  \<open>[1, 2, 0, 1]\<close>.
\<close>

theorem registerTradeResult_counts:
  "(date (currentData s) = Some day \<longrightarrow>
      (let c = consecutiveLosses (currentData s); pnl = parseOr pnlRaw ''0'';
           (s', (d, n)) = handleRegisterTradeResult s day pnlRaw
       in (jlt pnl (Fin 0) \<longrightarrow> n = c + 1) \<and>
          (jgt pnl (Fin 0) \<longrightarrow> n = 0) \<and>
          (pnl = Fin 0 \<or> pnl = NaN \<longrightarrow> n = c) \<and>
          consecutiveLosses (currentData s') = n \<and> d = Some day \<and>
          date (currentData s') = Some day)) \<and>
   registerAll (constructor None) D
     [RNum (Fin (- 5)), RNum (Fin (- 3)), RNum (Fin 2), RNum (Fin (- 1))] = [1, 2, 0, 1]"
  by (auto simp: handler_defs dest: jlt_asym)

theorem registerTradeResult_counts_witness:
  "(let s = fst (handleRegisterTradeResult (constructor None) ''2024-01-02'' (RNum (Fin (- 5))));
        (s', (d, n)) = handleRegisterTradeResult s ''2024-01-02'' (RStr ''-3'')
    in date (currentData s) = Some ''2024-01-02'' \<and> consecutiveLosses (currentData s) = 1 \<and>
       jlt (parseOr (RStr ''-3'') ''0'') (Fin 0) \<and> n = 2 \<and>
       consecutiveLosses (currentData s') = 2)"
  using registerTradeResult_counts
    [of "fst (handleRegisterTradeResult (constructor None) ''2024-01-02'' (RNum (Fin (- 5))))"
        "''2024-01-02''" "RStr ''-3''" "''2024-01-02''"]
  by (simp add: handler_defs parse_defs)

subsection \<open>A trade result on a new date\<close>

text \<open>
  C6. A \<^verbatim>\<open>registerTradeResult\<close> call whose date differs from the stored date stores the
  new date and counts from 0 (so the counter is 1 after a loss and 0 otherwise), and
  leaves \<open>startEquity\<close>, \<open>hitDailyMaxLoss\<close> and \<open>dailyMaxLossPct\<close> as they were. A
  \<^verbatim>\<open>getOrUpdate\<close> call on a new date overwrites all of them: the baseline is the
  call's equity, the counter is 0, the percentage is the call's, and the flag is
  computed afresh from the call's values alone.
\<close>

theorem registerTradeResult_new_date:
  "date (currentData s) \<noteq> Some day \<longrightarrow>
     (let d0 = currentData s; pnl = parseOr pnlRaw ''0'';
          (s', (d, n)) = handleRegisterTradeResult s day pnlRaw;
          (t', r) = handleGetOrUpdate s day e p;
          eq = parseOr e ''0''; pct = parseOr p ''0.03''
      in date (currentData s') = Some day \<and> d = Some day \<and>
         n = (if jlt pnl (Fin 0) then 1 else 0) \<and> consecutiveLosses (currentData s') = n \<and>
         startEquity (currentData s') = startEquity d0 \<and>
         hitDailyMaxLoss (currentData s') = hitDailyMaxLoss d0 \<and>
         dailyMaxLossPct (currentData s') = dailyMaxLossPct d0 \<and>
         storage s' = Some (currentData s') \<and>
         date (currentData t') = Some day \<and> startEquity (currentData t') = Some eq \<and>
         consecutiveLosses (currentData t') = 0 \<and> dailyMaxLossPct (currentData t') = Some pct \<and>
         hitDailyMaxLoss (currentData t') = jle (jsub eq eq) (jneg (jabs (jmul eq pct))))"
  by (auto simp: handler_defs)

theorem registerTradeResult_new_date_witness:
  "(let s = example_tripped;
        (s', (d, n)) = handleRegisterTradeResult s ''2024-01-03'' (RNum (Fin (- 5)));
        (t', r) = handleGetOrUpdate s ''2024-01-03'' (RNum (Fin 9600)) (RNum (Fin 0.03))
    in date (currentData s) \<noteq> Some ''2024-01-03'' \<and> hitDailyMaxLoss (currentData s) \<and>
       date (currentData s') = Some ''2024-01-03'' \<and> n = 1 \<and>
       startEquity (currentData s') = Some (Fin 10000) \<and> hitDailyMaxLoss (currentData s') \<and>
       dailyMaxLossPct (currentData s') = Some (Fin 0.03) \<and>
       startEquity (currentData t') = Some (Fin 9600) \<and> \<not> hitDailyMaxLoss (currentData t'))"
  using registerTradeResult_new_date
    [of example_tripped "''2024-01-03''" "RNum (Fin (- 5))" "RNum (Fin 9600)" "RNum (Fin 0.03)"]
  by (simp add: example_tripped_def example_day_def handler_defs split: prod.splits)


section \<open>Properties of the watchlist builder\<close>

lemmas watchlist_defs =
  getOrBuildMasterWatchlist_def tickerOk_def orDefault_def jge_def jgt_def
  parseInt10_def Let_def

lemma cache_hit:
  "MASTER_WATCHLIST_DAY g = Some d \<Longrightarrow> MASTER_WATCHLIST g \<noteq> [] \<Longrightarrow>
   getOrBuildMasterWatchlist ev resp g d = (g, MASTER_WATCHLIST g, [])"
  by (simp add: getOrBuildMasterWatchlist_def)

lemma result_cached:
  "getOrBuildMasterWatchlist ev resp g d = (g', wl, fx) \<Longrightarrow>
     MASTER_WATCHLIST g' = wl \<and> MASTER_WATCHLIST_DAY g' = Some d"
  by (auto simp: getOrBuildMasterWatchlist_def Let_def
      split: if_splits snapshot_response.splits)

lemma calls_hit:
  "MASTER_WATCHLIST_DAY g = Some d \<Longrightarrow> MASTER_WATCHLIST g \<noteq> [] \<Longrightarrow>
   callsForDay g d cs = map (\<lambda>_. (MASTER_WATCHLIST g, [])) cs"
  by (induction cs) (auto simp: cache_hit)

lemma empty_refetch:
  "MASTER_WATCHLIST g = [] \<Longrightarrow> MASSIVE_API_KEY ev \<noteq> None \<Longrightarrow>
   MASSIVE_API_KEY ev \<noteq> Some [] \<Longrightarrow>
   snd (snd (getOrBuildMasterWatchlist ev resp g d)) = [SnapshotFetch]"
  by (auto simp: getOrBuildMasterWatchlist_def Let_def split: snapshot_response.splits)

text \<open>
  C1, as stated, fails. The first call of the day meets an HTTP error: the empty
  watchlist is returned and recorded for the day. The second call for the same day does
  not return it: the guard of the cache asks for a non-empty list, so the snapshot is
  fetched again, and the call returns the symbol that request delivers.
\<close>

theorem empty_watchlist_not_reused:
  "(let d = ''2024-01-02'';
        (g1, w1, fx1) = getOrBuildMasterWatchlist example_env HttpNotOk initial_globals d;
        (g2, w2, fx2) =
          getOrBuildMasterWatchlist example_env (JsonBody (Some [example_ticker])) g1 d
    in w1 = [] \<and> MASTER_WATCHLIST_DAY g1 = Some d \<and> MASTER_WATCHLIST g1 = [] \<and>
       fx1 = [SnapshotFetch] \<and> fx2 = [SnapshotFetch] \<and> w2 = [''ACME''])"
  by (simp add: watchlist_defs parse_defs example_env_def example_ticker_def
      initial_globals_def)

text \<open>
  C1, amended. Every call leaves the watchlist it returns recorded under its day. Once
  a call has returned a non-empty watchlist for the day \<open>d\<close>, every further call for
  \<open>d\<close> (whatever the configuration and the snapshot service would answer) returns
  that watchlist, leaves the globals as they are and makes no request. An empty
  watchlist is not reused: the next call for \<open>d\<close> with an API key configured requests
  the snapshot again.
\<close>

theorem nonempty_watchlist_cached:
  "getOrBuildMasterWatchlist ev resp g d = (g', wl, fx) \<longrightarrow>
     MASTER_WATCHLIST g' = wl \<and> MASTER_WATCHLIST_DAY g' = Some d \<and>
     (wl \<noteq> [] \<longrightarrow>
        getOrBuildMasterWatchlist ev' resp' g' d = (g', wl, []) \<and>
        callsForDay g' d cs = map (\<lambda>_. (wl, [])) cs) \<and>
     (wl = [] \<and> MASSIVE_API_KEY ev' \<noteq> None \<and> MASSIVE_API_KEY ev' \<noteq> Some [] \<longrightarrow>
        snd (snd (getOrBuildMasterWatchlist ev' resp' g' d)) = [SnapshotFetch])"
proof
  assume a: "getOrBuildMasterWatchlist ev resp g d = (g', wl, fx)"
  from result_cached [OF a] have w: "MASTER_WATCHLIST g' = wl"
    and d: "MASTER_WATCHLIST_DAY g' = Some d" by simp_all
  show "MASTER_WATCHLIST g' = wl \<and> MASTER_WATCHLIST_DAY g' = Some d \<and>
     (wl \<noteq> [] \<longrightarrow>
        getOrBuildMasterWatchlist ev' resp' g' d = (g', wl, []) \<and>
        callsForDay g' d cs = map (\<lambda>_. (wl, [])) cs) \<and>
     (wl = [] \<and> MASSIVE_API_KEY ev' \<noteq> None \<and> MASSIVE_API_KEY ev' \<noteq> Some [] \<longrightarrow>
        snd (snd (getOrBuildMasterWatchlist ev' resp' g' d)) = [SnapshotFetch])"
    using w d cache_hit [OF d, of ev' resp'] calls_hit [OF d, of cs]
      empty_refetch [of g' ev' resp' d]
    by auto
qed

theorem nonempty_watchlist_cached_witness:
  "(let d = ''2024-01-02'';
        (g1, w1, fx1) =
          getOrBuildMasterWatchlist example_env (JsonBody (Some [example_ticker]))
            initial_globals d
    in w1 = [''ACME''] \<and> fx1 = [SnapshotFetch] \<and>
       getOrBuildMasterWatchlist example_env HttpNotOk g1 d = (g1, [''ACME''], []) \<and>
       callsForDay g1 d [(example_env, HttpNotOk), (example_env, JsonBody None)] =
         [([''ACME''], []), ([''ACME''], [])])"
proof -
  have e: "getOrBuildMasterWatchlist example_env (JsonBody (Some [example_ticker]))
             initial_globals ''2024-01-02'' =
           (\<lparr>MASTER_WATCHLIST = [''ACME''], MASTER_WATCHLIST_DAY = Some ''2024-01-02''\<rparr>,
            [''ACME''], [SnapshotFetch])"
    by (simp add: watchlist_defs parse_defs example_env_def example_ticker_def
        initial_globals_def)
  from nonempty_watchlist_cached
    [of example_env "JsonBody (Some [example_ticker])" initial_globals "''2024-01-02''"
      "\<lparr>MASTER_WATCHLIST = [''ACME''], MASTER_WATCHLIST_DAY = Some ''2024-01-02''\<rparr>"
      "[''ACME'']" "[SnapshotFetch]" example_env HttpNotOk
      "[(example_env, HttpNotOk), (example_env, JsonBody None)]"] e
  show ?thesis by (simp add: getOrBuildMasterWatchlist_def Let_def)
qed


section \<open>Properties of the signal scanner\<close>

subsection \<open>The example bars\<close>

lemma example_closes: "map bar_c example_bars = replicate 34 (Fin 19.8) @ [Fin 20.1]"
  by (simp add: example_bars_def flatBar_def eval_nat_numeral)

lemma example_macd:
  "calculateMACD (map bar_c example_bars) 12 26 9 =
     Some \<lparr>line = Fin (14/585), signal = Fin (14/2925), histogram = Fin (56/2925)\<rparr>"
  by (simp add: example_closes calculateMACD_def ema_def jsub_def Let_def eval_nat_numeral)

lemma example_length: "length example_bars = 35"
  by (simp add: example_bars_def)

lemma example_nth:
  "example_bars ! 34 = \<lparr>bar_o = Fin 19.8, bar_h = Fin 20.1, bar_l = Fin 19.8, bar_c = Fin 20.1, bar_v = Fin 200\<rparr>"
  "example_bars ! 33 = \<lparr>bar_o = Fin 19.9, bar_h = Fin 20, bar_l = Fin 19.5, bar_c = Fin 19.8, bar_v = Fin 100\<rparr>"
  "example_bars ! 32 = \<lparr>bar_o = Fin 19.7, bar_h = Fin 19.8, bar_l = Fin 19.7, bar_c = Fin 19.8, bar_v = Fin 100\<rparr>"
  by (simp_all add: example_bars_def nth_append)

lemma example_pattern: "choosePattern example_bars = (Fin 20, Some PULLBACK, None)"
  by (simp add: choosePattern_def abcdCheck_def example_length example_nth isGreen_def isRed_def jgt_def Let_def
         example_bars_def flatBar_def eval_nat_numeral split: prod.splits)

lemma example_confirmed: "breakoutConfirmed example_bars (Fin 20)"
  by (simp add: breakoutConfirmed_def example_length example_nth jgt_def jge_def Let_def)

lemma example_small: "evaluateBars (Fin (1 / 100)) \<lparr>equity = Some (RStr ''40'')\<rparr> ''ACME'' example_bars = SizingFailed"
  by (simp add: evaluateBars_def example_macd example_pattern example_confirmed example_length example_nth
        sizePosition_def riskPerShareOf_def accountEquity_def parse_defs jgt_def jsub_def Let_def)

lemma example_entered: "evaluateBars (Fin (1 / 100)) \<lparr>equity = Some (RStr ''10000'')\<rparr> ''ACME'' example_bars = Entered
  \<lparr>symbol = ''ACME'', pattern = PULLBACK, priceNow = Fin (201 / 10),
     triggerPrice = Fin 20, shares = Fin 200, riskDollars = Fin 100,
     riskPerShare = Fin (1 / 2)\<rparr>"
  by (simp add: evaluateBars_def example_macd example_pattern example_confirmed example_length example_nth
        sizePosition_def riskPerShareOf_def accountEquity_def parse_defs jgt_def jsub_def Let_def)


lemma scanSymbol_bars:
  "symb \<notin> set held \<Longrightarrow> fetched symb = Some bs \<Longrightarrow> 30 \<le> length bs \<Longrightarrow>
   scanSymbol riskPct acct held fetched symb = evaluateBars riskPct acct symb bs"
  by (simp add: scanSymbol_def)

lemma evaluateBars_selected:
  assumes "calculateMACD (map bar_c bs) 12 26 9 = Some m" "jgt (line m) (signal m)"
    "choosePattern bs = (trig, Some p, pc)" "jgt trig (Fin 0)"
  shows "evaluateBars riskPct acct symb bs =
     (if \<not> breakoutConfirmed bs trig then NotConfirmed
      else (case sizePosition (accountEquity acct) riskPct p trig
                   (bar_l (bs ! (length bs - 2))) pc (bar_c (bs ! (length bs - 1))) of
              None \<Rightarrow> SizingFailed
            | Some (sh, rd, rps) \<Rightarrow>
                Entered \<lparr>symbol = symb, pattern = p, priceNow = bar_c (bs ! (length bs - 1)),
                         triggerPrice = trig, shares = sh, riskDollars = rd,
                         riskPerShare = rps\<rparr>))"
  using assms by (simp add: evaluateBars_def Let_def split: option.splits prod.splits)

subsection \<open>Breakout confirmation\<close>

text \<open>
  C7, as stated, fails. On the example bars the pullback is selected with the trigger
  price 20, and the current bar confirms the breakout (close 20.1, volume 200 against
  100). With an account equity of 40 the dollars at risk are 0.4 against a risk per
  share of 0.5, the share count is 0, and the symbol ends without an action: the
  signal is counted, no action is produced.
\<close>

theorem confirmed_breakout_without_action:
  "(let acct = \<lparr>equity = Some (RStr ''40'')\<rparr>;
        fetched = (\<lambda>_. Some example_bars);
        r = fst (scanAndTrade_H3 example_env [''ACME''] [] acct fetched)
    in choosePattern example_bars = (Fin 20, Some PULLBACK, None) \<and>
       breakoutConfirmed example_bars (Fin 20) \<and>
       scanSymbol (Fin 0.01) acct [] fetched ''ACME'' = SizingFailed \<and>
       scanned r = 1 \<and> signals r = 1 \<and> actions r = [])"
  by (simp add: example_pattern example_confirmed example_small scanAndTrade_H3_def
      scanSymbol_def example_length example_env_def orDefault_def toLowerCase_def
      parse_defs effectsOf_def Let_def)

text \<open>
  C7, amended. For a symbol that is not held, has at least 30 bars, a positive MACD, a
  selected pattern and a positive trigger price: the entry signal is counted (the
  symbol ends in the sizing step or with an action) if and only if the current bar has
  \<open>close \<ge> triggerPrice\<close> and a volume above the last completed bar's; an action is
  produced if and only if, in addition, the sizing yields a finite positive share
  count; when the breakout is not confirmed the symbol ends without an action and
  without an order. The outcome is a function of this run's inputs alone: the scanner
  has no state in which a setup could be kept.
\<close>

theorem breakout_confirmation:
  "30 \<le> length bs \<and> symb \<notin> set held \<and> fetched symb = Some bs \<and>
   calculateMACD (map bar_c bs) 12 26 9 = Some m \<and> jgt (line m) (signal m) \<and>
   choosePattern bs = (trig, Some p, pc) \<and> jgt trig (Fin 0) \<longrightarrow>
   (let out = scanSymbol riskPct acct held fetched symb;
        cur = bs ! (length bs - 1); lst = bs ! (length bs - 2);
        sz = sizePosition (accountEquity acct) riskPct p trig (bar_l lst) pc (bar_c cur)
    in (breakoutConfirmed bs trig \<longleftrightarrow> jge (bar_c cur) trig \<and> jgt (bar_v cur) (bar_v lst)) \<and>
       (out = SizingFailed \<or> (\<exists>a. out = Entered a) \<longleftrightarrow> breakoutConfirmed bs trig) \<and>
       ((\<exists>a. out = Entered a) \<longleftrightarrow> breakoutConfirmed bs trig \<and> sz \<noteq> None) \<and>
       (\<not> breakoutConfirmed bs trig \<longrightarrow>
          out = NotConfirmed \<and> effectsOf dryRun symb out = [BarsFetch symb]))"
proof
  assume a: "30 \<le> length bs \<and> symb \<notin> set held \<and> fetched symb = Some bs \<and>
   calculateMACD (map bar_c bs) 12 26 9 = Some m \<and> jgt (line m) (signal m) \<and>
   choosePattern bs = (trig, Some p, pc) \<and> jgt trig (Fin 0)"
  then have e: "scanSymbol riskPct acct held fetched symb = evaluateBars riskPct acct symb bs"
    by (simp add: scanSymbol_bars)
  from a have m: "calculateMACD (map bar_c bs) 12 26 9 = Some m" by blast
  from a have pos: "jgt (line m) (signal m)" by blast
  from a have cp: "choosePattern bs = (trig, Some p, pc)" by blast
  from a have tp: "jgt trig (Fin 0)" by blast
  have s: "evaluateBars riskPct acct symb bs =
     (if \<not> breakoutConfirmed bs trig then NotConfirmed
      else (case sizePosition (accountEquity acct) riskPct p trig
                   (bar_l (bs ! (length bs - 2))) pc (bar_c (bs ! (length bs - 1))) of
              None \<Rightarrow> SizingFailed
            | Some (sh, rd, rps) \<Rightarrow>
                Entered \<lparr>symbol = symb, pattern = p, priceNow = bar_c (bs ! (length bs - 1)),
                         triggerPrice = trig, shares = sh, riskDollars = rd,
                         riskPerShare = rps\<rparr>))"
    using m pos cp tp by (rule evaluateBars_selected)
  show "(let out = scanSymbol riskPct acct held fetched symb;
        cur = bs ! (length bs - 1); lst = bs ! (length bs - 2);
        sz = sizePosition (accountEquity acct) riskPct p trig (bar_l lst) pc (bar_c cur)
    in (breakoutConfirmed bs trig \<longleftrightarrow> jge (bar_c cur) trig \<and> jgt (bar_v cur) (bar_v lst)) \<and>
       (out = SizingFailed \<or> (\<exists>a. out = Entered a) \<longleftrightarrow> breakoutConfirmed bs trig) \<and>
       ((\<exists>a. out = Entered a) \<longleftrightarrow> breakoutConfirmed bs trig \<and> sz \<noteq> None) \<and>
       (\<not> breakoutConfirmed bs trig \<longrightarrow>
          out = NotConfirmed \<and> effectsOf dryRun symb out = [BarsFetch symb]))"
    unfolding e s
    by (auto simp: Let_def breakoutConfirmed_def effectsOf_def split: option.splits)
qed

theorem breakout_confirmation_witness:
  "30 \<le> length example_bars \<and>
   calculateMACD (map bar_c example_bars) 12 26 9 =
     Some \<lparr>line = Fin (14/585), signal = Fin (14/2925), histogram = Fin (56/2925)\<rparr> \<and>
   choosePattern example_bars = (Fin 20, Some PULLBACK, None) \<and>
   breakoutConfirmed example_bars (Fin 20) \<and>
   (\<exists>a. scanSymbol (Fin 0.01) \<lparr>equity = Some (RStr ''10000'')\<rparr> []
          (\<lambda>_. Some example_bars) ''ACME'' = Entered a)"
  using breakout_confirmation
    [of example_bars "''ACME''" "[]" "\<lambda>_. Some example_bars"
      "\<lparr>line = Fin (14/585), signal = Fin (14/2925), histogram = Fin (56/2925)\<rparr>"
      "Fin 20" PULLBACK None "Fin 0.01" "\<lparr>equity = Some (RStr ''10000'')\<rparr>" True]
    example_macd example_pattern example_confirmed
  by (simp add: example_length jgt_def Let_def sizePosition_def riskPerShareOf_def
      accountEquity_def parse_defs example_nth jsub_def)


subsection \<open>Position sizing\<close>



lemma evaluateBars_Entered:
  "evaluateBars riskPct acct symb bs = Entered a \<Longrightarrow>
   \<exists>trig p pc. choosePattern bs = (trig, Some p, pc) \<and> jgt trig (Fin 0) \<and>
      breakoutConfirmed bs trig \<and>
      sizePosition (accountEquity acct) riskPct p trig (bar_l (bs ! (length bs - 2))) pc
        (bar_c (bs ! (length bs - 1))) = Some (shares a, riskDollars a, riskPerShare a) \<and>
      pattern a = p \<and> triggerPrice a = trig \<and> priceNow a = bar_c (bs ! (length bs - 1)) \<and>
      symbol a = symb"
  by (auto simp: evaluateBars_def Let_def split: option.splits prod.splits if_splits)

lemma scanSymbol_Entered:
  "scanSymbol riskPct acct held fetched symb = Entered a \<Longrightarrow>
   \<exists>bs. fetched symb = Some bs \<and> 30 \<le> length bs \<and> symb \<notin> set held \<and>
        evaluateBars riskPct acct symb bs = Entered a"
  by (auto simp: scanSymbol_def split: option.splits if_splits)





subsection \<open>An ABCD setup is not entered in the run that finds it\<close>

text \<open>
  The ABCD setup asks for a current close below point B, and point B is its trigger
  price, while the breakout asks for a current close at or above the trigger price. So
  every action the scanner emits carries the pattern \<^verbatim>\<open>PULLBACK\<close>.
\<close>

lemma jlt_not_jle: "jlt a b \<Longrightarrow> \<not> jle b a"
  by (cases a; cases b) simp_all

lemma abcd_setup_below_trigger:
  "abcdCheck bs = (True, Some t, pc) \<Longrightarrow> jlt (bar_c (bs ! (length bs - 1))) t"
  by (auto simp: abcdCheck_def Let_def split: prod.splits if_splits)

lemma choosePattern_ABCD_below:
  "choosePattern bs = (trig, Some ABCD, pc) \<Longrightarrow> jlt (bar_c (bs ! (length bs - 1))) trig"
  by (auto simp: choosePattern_def Let_def split: prod.splits if_splits option.splits
      dest: abcd_setup_below_trigger)

lemma abcd_never_confirmed:
  "choosePattern bs = (trig, Some ABCD, pc) \<Longrightarrow> \<not> breakoutConfirmed bs trig"
  by (auto simp: breakoutConfirmed_def Let_def jge_def dest!: choosePattern_ABCD_below jlt_not_jle)

lemma entered_is_pullback:
  "scanSymbol riskPct acct held fetched symb = Entered a \<Longrightarrow> pattern a = PULLBACK"
proof -
  assume e: "scanSymbol riskPct acct held fetched symb = Entered a"
  from scanSymbol_Entered [OF e] obtain bs where
    ev: "evaluateBars riskPct acct symb bs = Entered a" by blast
  from evaluateBars_Entered [OF ev] obtain trig p pc where
    cp: "choosePattern bs = (trig, Some p, pc)" and bc: "breakoutConfirmed bs trig"
    and pa: "pattern a = p" by blast
  show ?thesis using cp bc pa abcd_never_confirmed by (cases p) auto
qed

section \<open>Properties of a run\<close>

subsection \<open>The calls a run makes\<close>

lemma watchlist_effects:
  "set (snd (snd (getOrBuildMasterWatchlist ev resp g d))) \<subseteq> {SnapshotFetch}"
  by (auto simp: getOrBuildMasterWatchlist_def Let_def split: snapshot_response.splits if_splits)

lemma effectsOf_kinds:
  "e \<in> set (effectsOf dryRun symb out) \<Longrightarrow>
   (\<exists>s. e = BarsFetch s) \<or> (\<exists>s q. e = OrderPlaced s q)"
  by (auto simp: effectsOf_def split: outcome.splits if_splits)

lemma scanLoop_effects:
  "e \<in> set (snd (scanLoop dryRun riskPct acct held fetched syms acc fx)) \<Longrightarrow>
   e \<in> set fx \<or> (\<exists>s. e = BarsFetch s) \<or> (\<exists>s q. e = OrderPlaced s q)"
proof (induction syms arbitrary: acc fx)
  case Nil
  then show ?case by simp
next
  case (Cons symb syms)
  from Cons.prems obtain acc' where
    "e \<in> set (snd (scanLoop dryRun riskPct acct held fetched syms acc'
        (fx @ effectsOf dryRun symb (scanSymbol riskPct acct held fetched symb))))"
    by (auto simp: Let_def)
  from Cons.IH [OF this] show ?case by (auto dest: effectsOf_kinds)
qed

lemma scan_effects:
  "e \<in> set (snd (scanAndTrade_H3 ev watchlist held acct fetched)) \<Longrightarrow>
   (\<exists>s. e = BarsFetch s) \<or> (\<exists>s q. e = OrderPlaced s q)"
  by (auto simp: scanAndTrade_H3_def Let_def dest: scanLoop_effects)

subsection \<open>The example runs\<close>

lemma example_watchlist:
  "getOrBuildMasterWatchlist example_env (JsonBody (Some [example_ticker])) initial_globals d =
     (\<lparr>MASTER_WATCHLIST = [''ACME''], MASTER_WATCHLIST_DAY = Some d\<rparr>, [''ACME''], [SnapshotFetch])"
  by (simp add: watchlist_defs parse_defs example_env_def example_ticker_def initial_globals_def)

lemma example_risk_9600:
  "snd (handleGetOrUpdate example_baseline example_day (RNum (Fin 9600)) (RNum (Fin (3 / 100)))) =
     example_risk (- 400) True"
  by (simp add: example_baseline_def example_risk_def handler_defs)

lemma example_risk_10000:
  "snd (handleGetOrUpdate example_baseline example_day (RNum (Fin 10000)) (RNum (Fin (3 / 100)))) =
     example_risk 0 False"
  by (simp add: example_baseline_def example_risk_def handler_defs)

lemma example_run_tripped:
  "564 \<le> m \<Longrightarrow> m \<le> 660 \<Longrightarrow>
   runBotOnce example_env (example_world m ''9600'') False initial_globals =
     (\<lparr>ok = True, reason = Some ''daily-max-loss-hit'',
       riskState = Some (example_risk (- 400) True), scan = None\<rparr>,
      \<lparr>MASTER_WATCHLIST = [''ACME''], MASTER_WATCHLIST_DAY = Some example_day\<rparr>,
      [SnapshotFetch, AccountFetch, RiskStateObtained (example_risk (- 400) True)])"
  by (simp add: runBotOnce_def example_world_def example_watchlist ENTRY_WINDOW_START_def
      ENTRY_WINDOW_END_def accountEquity_def parse_defs example_risk_9600 Let_def)
     (simp add: example_risk_def)

lemma example_scan:
  "scanAndTrade_H3 example_env [''ACME''] [] \<lparr>equity = Some (RStr ''10000'')\<rparr>
     (\<lambda>_. Some example_bars) =
   (\<lparr>scanned = 1, signals = 1,
     actions = [\<lparr>symbol = ''ACME'', pattern = PULLBACK, priceNow = Fin (201 / 10),
                 triggerPrice = Fin 20, shares = Fin 200, riskDollars = Fin 100,
                 riskPerShare = Fin (1 / 2)\<rparr>]\<rparr>,
    [BarsFetch ''ACME''])"
  by (simp add: scanAndTrade_H3_def scanSymbol_def example_length example_entered
      example_env_def orDefault_def toLowerCase_def parse_defs effectsOf_def Let_def)

lemma example_run_scans:
  "564 \<le> m \<Longrightarrow> m \<le> 660 \<Longrightarrow>
   runBotOnce example_env (example_world m ''10000'') False initial_globals =
     (\<lparr>ok = True, reason = None, riskState = Some (example_risk 0 False),
       scan = Some (fst (scanAndTrade_H3 example_env [''ACME''] []
                \<lparr>equity = Some (RStr ''10000'')\<rparr> (\<lambda>_. Some example_bars)))\<rparr>,
      \<lparr>MASTER_WATCHLIST = [''ACME''], MASTER_WATCHLIST_DAY = Some example_day\<rparr>,
      [SnapshotFetch, AccountFetch, RiskStateObtained (example_risk 0 False), PositionsFetch,
       BarsFetch ''ACME''])"
  by (simp add: runBotOnce_def example_world_def example_watchlist ENTRY_WINDOW_START_def
      ENTRY_WINDOW_END_def accountEquity_def parse_defs example_risk_10000 Let_def example_scan)
     (simp add: example_risk_def)

subsection \<open>The daily-loss gate\<close>

text \<open>
  C9. In every run that is not forced and obtains a risk state with
  \<open>hitDailyMaxLoss = true\<close>, \<^verbatim>\<open>runBotOnce\<close> returns \<open>ok = true\<close> with the reason
  \<^verbatim>\<open>daily-max-loss-hit\<close> and that risk state, and has fetched no positions and no bars
  and placed no order: no symbol is scanned.
\<close>

theorem daily_max_loss_gate:
  "runBotOnce ev w False g = (res, g', fx) \<and> RiskStateObtained rs \<in> set fx \<and>
   hitDailyMaxLoss rs \<longrightarrow>
     res = \<lparr>ok = True, reason = Some ''daily-max-loss-hit'', riskState = Some rs,
            scan = None\<rparr> \<and>
     PositionsFetch \<notin> set fx \<and> (\<forall>s. BarsFetch s \<notin> set fx) \<and>
     (\<forall>s q. OrderPlaced s q \<notin> set fx)"
proof (intro impI, elim conjE)
  assume r: "runBotOnce ev w False g = (res, g', fx)"
    and o: "RiskStateObtained rs \<in> set fx" and h: "hitDailyMaxLoss rs"
  obtain g1 wl fx1 where b: "getOrBuildMasterWatchlist ev (snapshot w) g (nyDayKey w) = (g1, wl, fx1)"
    by (cases "getOrBuildMasterWatchlist ev (snapshot w) g (nyDayKey w)") auto
  from watchlist_effects [of ev "snapshot w" g "nyDayKey w"] b
  have f1: "set fx1 \<subseteq> {SnapshotFetch}" by simp
  obtain sr fx3 where sc: "scanAndTrade_H3 ev wl (positions w) (the (alpacaAccount w)) (bars w) = (sr, fx3)"
    by (cases "scanAndTrade_H3 ev wl (positions w) (the (alpacaAccount w)) (bars w)") auto
  from scan_effects [of _ ev wl "positions w" "the (alpacaAccount w)" "bars w"] sc
  have f3: "RiskStateObtained rs \<notin> set fx3" by auto
  show "res = \<lparr>ok = True, reason = Some ''daily-max-loss-hit'', riskState = Some rs,
            scan = None\<rparr> \<and>
     PositionsFetch \<notin> set fx \<and> (\<forall>s. BarsFetch s \<notin> set fx) \<and>
     (\<forall>s q. OrderPlaced s q \<notin> set fx)"
    using r o h b f1 f3 sc
    by (auto simp: runBotOnce_def Let_def stopped_def split: if_splits option.splits)
qed


theorem daily_max_loss_gate_witness:
  "(let (res, g', fx) = runBotOnce example_env (example_world 600 ''9600'') False initial_globals;
        rs = example_risk (- 400) True
    in RiskStateObtained rs \<in> set fx \<and> hitDailyMaxLoss rs \<and>
       res = \<lparr>ok = True, reason = Some ''daily-max-loss-hit'', riskState = Some rs,
              scan = None\<rparr> \<and>
       fx = [SnapshotFetch, AccountFetch, RiskStateObtained rs])"
  using daily_max_loss_gate [of example_env "example_world 600 ''9600''" initial_globals
      "\<lparr>ok = True, reason = Some ''daily-max-loss-hit'',
        riskState = Some (example_risk (- 400) True), scan = None\<rparr>"
      "\<lparr>MASTER_WATCHLIST = [''ACME''], MASTER_WATCHLIST_DAY = Some example_day\<rparr>"
      "[SnapshotFetch, AccountFetch, RiskStateObtained (example_risk (- 400) True)]"
      "example_risk (- 400) True"]
    example_run_tripped [of 600]
  by (simp add: example_risk_def)

subsection \<open>The entry window\<close>

text \<open>
  C10. For a run that is not forced, the reason is \<^verbatim>\<open>too-early\<close> exactly when the New
  York minute is below 564 (09:24) and \<^verbatim>\<open>too-late\<close> exactly when it is above 660
  (11:00); such a run touches neither the watchlist nor any collaborator. From 564 to
  660, both ends included, the run goes on to the watchlist stage (the globals are
  those the builder leaves and the run's calls begin with the builder's), and with a
  non-empty watchlist and an account it reaches the risk gate.
\<close>

theorem entry_window_closed:
  "(let (res, g', fx) = runBotOnce ev w False g; m = nyMinutes w;
        (g1, wl, fx1) = getOrBuildMasterWatchlist ev (snapshot w) g (nyDayKey w)
    in (reason res = Some ''too-early'' \<longleftrightarrow> m < 564) \<and>
       (reason res = Some ''too-late'' \<longleftrightarrow> 660 < m) \<and>
       (m < 564 \<or> 660 < m \<longrightarrow> ok res \<and> g' = g \<and> fx = []) \<and>
       (564 \<le> m \<and> m \<le> 660 \<longrightarrow>
          g' = g1 \<and> take (length fx1) fx = fx1 \<and>
          (wl = [] \<longrightarrow> reason res = Some ''empty-watchlist'') \<and>
          (wl \<noteq> [] \<longrightarrow> AccountFetch \<in> set fx) \<and>
          (\<forall>a. wl \<noteq> [] \<and> alpacaAccount w = Some a \<longrightarrow>
             RiskStateObtained (riskStateOf w (nyDayKey w) (accountEquity a)) \<in> set fx)))"
  by (auto simp: runBotOnce_def ENTRY_WINDOW_START_def ENTRY_WINDOW_END_def Let_def stopped_def
      split: prod.splits option.splits if_splits)

theorem entry_window_closed_witness:
  "(let r = (\<lambda>m. runBotOnce example_env (example_world m ''10000'') False initial_globals)
    in reason (fst (r 563)) = Some ''too-early'' \<and> reason (fst (r 564)) = None \<and>
       reason (fst (r 660)) = None \<and> reason (fst (r 661)) = Some ''too-late'' \<and>
       RiskStateObtained (example_risk 0 False) \<in> set (snd (snd (r 564))) \<and>
       RiskStateObtained (example_risk 0 False) \<in> set (snd (snd (r 660))) \<and>
       map (\<lambda>m. map_option (map shares \<circ> actions) (scan (fst (r m)))) [564, 660] =
         [Some [Fin 200], Some [Fin 200]])"
  using entry_window_closed [of example_env "example_world 564 ''10000''" initial_globals]
    entry_window_closed [of example_env "example_world 660 ''10000''" initial_globals]
    entry_window_closed [of example_env "example_world 563 ''10000''" initial_globals]
    entry_window_closed [of example_env "example_world 661 ''10000''" initial_globals]
    example_run_scans [of 564] example_run_scans [of 660]
  by (simp add: Let_def example_scan split: prod.splits) (simp_all add: example_world_def)

end
